theory Spec2Isabelle
  imports Main "HOL-Library.AList"
begin

section \<open>Yandex Disk public-resource client (disk_api/utils.py)\<close>

text \<open>
  A shallow embedding of \<^verbatim>\<open>yandex_disk_project/disk_api/utils.py\<close>: the request
  parameter dataclass \<^verbatim>\<open>ResourceRequestParams\<close> with its enumerations and the two
  operations of \<^verbatim>\<open>ResourceOperations\<close>. Python strings are byte strings here
  (\<^typ>\<open>string\<close>, UTF-8), Python integers are \<^typ>\<open>int\<close>, exceptions are values of
  the type \<open>error\<close> returned on the left of a sum.
\<close>

subsection \<open>Exceptions\<close>

text \<open>
  The exception classes that the modelled code can meet; each carries what \<^verbatim>\<open>str(e)\<close>
  prints. All of them are subclasses of Python's \<^verbatim>\<open>Exception\<close>.
\<close>

datatype error =
    ValueError string
  | KeyError string
  | TypeError string
  | AttributeError string
  | RequestException string
  | JSONDecodeError string
  | OSError string

fun str_error :: "error \<Rightarrow> string" where
  "str_error (ValueError m) = m"
| "str_error (KeyError m) = m"
| "str_error (TypeError m) = m"
| "str_error (AttributeError m) = m"
| "str_error (RequestException m) = m"
| "str_error (JSONDecodeError m) = m"
| "str_error (OSError m) = m"

subsection \<open>Python's \<^verbatim>\<open>str\<close> on integers and booleans, \<^verbatim>\<open>str.join\<close>\<close>

text \<open>The decimal digits of a non-negative integer, the most significant first.\<close>

definition digit_char :: "int \<Rightarrow> char" where
  "digit_char d =
     (if d = 0 then CHR ''0'' else if d = 1 then CHR ''1'' else if d = 2 then CHR ''2''
      else if d = 3 then CHR ''3'' else if d = 4 then CHR ''4'' else if d = 5 then CHR ''5''
      else if d = 6 then CHR ''6'' else if d = 7 then CHR ''7'' else if d = 8 then CHR ''8''
      else CHR ''9'')"

function str_digits :: "int \<Rightarrow> string" where
  "str_digits n = (if n < 10 then [digit_char n] else str_digits (n div 10) @ [digit_char (n mod 10)])"
  by pat_completeness auto
termination
  by (relation "measure nat") auto

declare str_digits.simps [simp del]

text \<open>
  \<^verbatim>\<open>str(i)\<close> of an integer. The interpreter that runs this module (3.11 at least, for
  \<^verbatim>\<open>StrEnum\<close>) refuses to convert an integer of more than \<^verbatim>\<open>sys.int_max_str_digits\<close>
  decimal digits, 4300 unless the interpreter is configured otherwise, and raises
  \<^verbatim>\<open>ValueError\<close>; the sign is not counted.
\<close>

definition int_max_str_digits :: nat where
  "int_max_str_digits = 4300"

definition digits_limit_error :: error where
  "digits_limit_error = ValueError
     ''Exceeds the limit (4300 digits) for integer string conversion; use sys.set_int_max_str_digits() to increase the limit''"

definition str_int :: "int \<Rightarrow> error + string" where
  "str_int i =
     (let digits = str_digits \<bar>i\<bar>
      in if int_max_str_digits < length digits then Inl digits_limit_error
         else Inr (if i < 0 then CHR ''-'' # digits else digits))"

definition str_bool :: "bool \<Rightarrow> string" where
  "str_bool b = (if b then ''True'' else ''False'')"

fun join :: "string \<Rightarrow> string list \<Rightarrow> string" where
  "join sep [] = []"
| "join sep [x] = x"
| "join sep (x # y # ys) = x @ sep @ join sep (y # ys)"

subsection \<open>The enumerations of \<^verbatim>\<open>ResourceRequestParams\<close>\<close>

datatype SortOptions = SORT_CREATED | SORT_MODIFIED | SORT_NAME | SORT_PATH | SORT_SIZE

fun sort_value :: "SortOptions \<Rightarrow> string" where
  "sort_value SORT_CREATED = ''created''"
| "sort_value SORT_MODIFIED = ''modified''"
| "sort_value SORT_NAME = ''name''"
| "sort_value SORT_PATH = ''path''"
| "sort_value SORT_SIZE = ''size''"

text \<open>The property \<^verbatim>\<open>desc\<close>: \<^verbatim>\<open>f"-{self}"\<close>.\<close>

definition desc :: "SortOptions \<Rightarrow> string" where
  "desc s = ''-'' @ sort_value s"

datatype PreviewSizeOptions =
  PREVIEW_S | PREVIEW_M | PREVIEW_L | PREVIEW_XL | PREVIEW_XXL | PREVIEW_XXXL

fun preview_size_value :: "PreviewSizeOptions \<Rightarrow> string" where
  "preview_size_value PREVIEW_S = ''S''"
| "preview_size_value PREVIEW_M = ''M''"
| "preview_size_value PREVIEW_L = ''L''"
| "preview_size_value PREVIEW_XL = ''XL''"
| "preview_size_value PREVIEW_XXL = ''XXL''"
| "preview_size_value PREVIEW_XXXL = ''XXXL''"

text \<open>
  The static method \<^verbatim>\<open>PreviewSizeOptions.resolution(width, height)\<close>: a \<^verbatim>\<open>match\<close> on
  the pair, the cases in the order of the source; the last case raises. The formatted
  string converts the width first and then the height, and either conversion can raise.
\<close>

fun resolution :: "int option \<Rightarrow> int option \<Rightarrow> error + string" where
  "resolution (Some w) (Some h) =
     (case str_int w of
        Inl ex \<Rightarrow> Inl ex
      | Inr sw \<Rightarrow> (case str_int h of Inl ex \<Rightarrow> Inl ex | Inr sh \<Rightarrow> Inr (sw @ ''x'' @ sh)))"
| "resolution (Some w) None = (case str_int w of Inl ex \<Rightarrow> Inl ex | Inr sw \<Rightarrow> Inr (sw @ ''x''))"
| "resolution None (Some h) = (case str_int h of Inl ex \<Rightarrow> Inl ex | Inr sh \<Rightarrow> Inr (''x'' @ sh))"
| "resolution None None = Inl (ValueError
     (''Invalid input format, expected '<integer>, <integer>', '<integer>, None', or 'None, <integer>''
      @ [CHR 0x27]))"

text \<open>
  \<^verbatim>\<open>FieldOptions\<close>: the field selectors. The members for the embedded items are
  defined in the source by concatenating the values of earlier members (\<^verbatim>\<open>EMBEDDED + ".items"\<close>,
  \<^verbatim>\<open>EMBEDDED_ITEMS + NAME\<close>), written here as the concatenation of those values.
\<close>

datatype FieldOptions =
    ANTIVIRUS_STATUS
  | COMMENT_IDS
  | CREATED
  | CUSTOM_PROPERTIES
  | EMBEDDED
  | EXIF
  | FILE
  | MD5
  | MEDIA_TYPE
  | MIME_TYPE
  | MODIFIED
  | NAME
  | ORIGIN_PATH
  | OWNER
  | PATH
  | PREVIEW
  | PUBLIC_KEY
  | PUBLIC_URL
  | RESOURCE_ID
  | REVISION
  | SHA256
  | SIZE
  | SIZES
  | TYPE'
  | VIEWS_COUNT
  | EMBEDDED_ITEMS
  | EMBEDDED_LIMIT
  | EMBEDDED_OFFSET
  | EMBEDDED_PATH
  | EMBEDDED_PUBLIC_KEY
  | EMBEDDED_SORT
  | EMBEDDED_TOTAL
  | EMBEDDED_ITEMS_ANTIVIRUS_STATUS
  | EMBEDDED_ITEMS_COMMENT_IDS
  | EMBEDDED_ITEMS_CREATED
  | EMBEDDED_ITEMS_CUSTOM_PROPERTIES
  | EMBEDDED_ITEMS_EXIF
  | EMBEDDED_ITEMS_FILE
  | EMBEDDED_ITEMS_MD5
  | EMBEDDED_ITEMS_MEDIA_TYPE
  | EMBEDDED_ITEMS_MIME_TYPE
  | EMBEDDED_ITEMS_MODIFIED
  | EMBEDDED_ITEMS_NAME
  | EMBEDDED_ITEMS_PATH
  | EMBEDDED_ITEMS_PREVIEW
  | EMBEDDED_ITEMS_PUBLIC_KEY
  | EMBEDDED_ITEMS_PUBLIC_URL
  | EMBEDDED_ITEMS_RESOURCE_ID
  | EMBEDDED_ITEMS_REVISION
  | EMBEDDED_ITEMS_SHA256
  | EMBEDDED_ITEMS_SIZE
  | EMBEDDED_ITEMS_SIZES
  | EMBEDDED_ITEMS_TYPE

primrec field_value :: "FieldOptions \<Rightarrow> string" where
  "field_value ANTIVIRUS_STATUS = ''.antivirus_status''"
| "field_value COMMENT_IDS = ''.comment_ids''"
| "field_value CREATED = ''.created''"
| "field_value CUSTOM_PROPERTIES = ''.custom_properties''"
| "field_value EMBEDDED = ''._embedded''"
| "field_value EXIF = ''.exif''"
| "field_value FILE = ''.file''"
| "field_value MD5 = ''.md5''"
| "field_value MEDIA_TYPE = ''.media_type''"
| "field_value MIME_TYPE = ''.mime_type''"
| "field_value MODIFIED = ''.modified''"
| "field_value NAME = ''.name''"
| "field_value ORIGIN_PATH = ''.origin_path''"
| "field_value OWNER = ''.owner''"
| "field_value PATH = ''.path''"
| "field_value PREVIEW = ''.preview''"
| "field_value PUBLIC_KEY = ''.public_key''"
| "field_value PUBLIC_URL = ''.public_url''"
| "field_value RESOURCE_ID = ''.resource_id''"
| "field_value REVISION = ''.revision''"
| "field_value SHA256 = ''.sha256''"
| "field_value SIZE = ''.size''"
| "field_value SIZES = ''.sizes''"
| "field_value TYPE' = ''.type''"
| "field_value VIEWS_COUNT = ''.views_count''"
| "field_value EMBEDDED_ITEMS = ''._embedded'' @ ''.items''"
| "field_value EMBEDDED_LIMIT = ''._embedded'' @ ''.limit''"
| "field_value EMBEDDED_OFFSET = ''._embedded'' @ ''.offset''"
| "field_value EMBEDDED_PATH = ''._embedded'' @ ''.path''"
| "field_value EMBEDDED_PUBLIC_KEY = ''._embedded'' @ ''.public_key''"
| "field_value EMBEDDED_SORT = ''._embedded'' @ ''.sort''"
| "field_value EMBEDDED_TOTAL = ''._embedded'' @ ''.total''"
| "field_value EMBEDDED_ITEMS_ANTIVIRUS_STATUS = ''._embedded'' @ ''.items'' @ ''.antivirus_status''"
| "field_value EMBEDDED_ITEMS_COMMENT_IDS = ''._embedded'' @ ''.items'' @ ''.comment_ids''"
| "field_value EMBEDDED_ITEMS_CREATED = ''._embedded'' @ ''.items'' @ ''.created''"
| "field_value EMBEDDED_ITEMS_CUSTOM_PROPERTIES = ''._embedded'' @ ''.items'' @ ''.custom_properties''"
| "field_value EMBEDDED_ITEMS_EXIF = ''._embedded'' @ ''.items'' @ ''.exif''"
| "field_value EMBEDDED_ITEMS_FILE = ''._embedded'' @ ''.items'' @ ''.file''"
| "field_value EMBEDDED_ITEMS_MD5 = ''._embedded'' @ ''.items'' @ ''.md5''"
| "field_value EMBEDDED_ITEMS_MEDIA_TYPE = ''._embedded'' @ ''.items'' @ ''.media_type''"
| "field_value EMBEDDED_ITEMS_MIME_TYPE = ''._embedded'' @ ''.items'' @ ''.mime_type''"
| "field_value EMBEDDED_ITEMS_MODIFIED = ''._embedded'' @ ''.items'' @ ''.modified''"
| "field_value EMBEDDED_ITEMS_NAME = ''._embedded'' @ ''.items'' @ ''.name''"
| "field_value EMBEDDED_ITEMS_PATH = ''._embedded'' @ ''.items'' @ ''.path''"
| "field_value EMBEDDED_ITEMS_PREVIEW = ''._embedded'' @ ''.items'' @ ''.preview''"
| "field_value EMBEDDED_ITEMS_PUBLIC_KEY = ''._embedded'' @ ''.items'' @ ''.public_key''"
| "field_value EMBEDDED_ITEMS_PUBLIC_URL = ''._embedded'' @ ''.items'' @ ''.public_url''"
| "field_value EMBEDDED_ITEMS_RESOURCE_ID = ''._embedded'' @ ''.items'' @ ''.resource_id''"
| "field_value EMBEDDED_ITEMS_REVISION = ''._embedded'' @ ''.items'' @ ''.revision''"
| "field_value EMBEDDED_ITEMS_SHA256 = ''._embedded'' @ ''.items'' @ ''.sha256''"
| "field_value EMBEDDED_ITEMS_SIZE = ''._embedded'' @ ''.items'' @ ''.size''"
| "field_value EMBEDDED_ITEMS_SIZES = ''._embedded'' @ ''.items'' @ ''.sizes''"
| "field_value EMBEDDED_ITEMS_TYPE = ''._embedded'' @ ''.items'' @ ''.type''"

text \<open>The names of the members, which Python's \<^verbatim>\<open>repr\<close> of a member prints.\<close>

primrec field_name :: "FieldOptions \<Rightarrow> string" where
  "field_name ANTIVIRUS_STATUS = ''ANTIVIRUS_STATUS''"
| "field_name COMMENT_IDS = ''COMMENT_IDS''"
| "field_name CREATED = ''CREATED''"
| "field_name CUSTOM_PROPERTIES = ''CUSTOM_PROPERTIES''"
| "field_name EMBEDDED = ''EMBEDDED''"
| "field_name EXIF = ''EXIF''"
| "field_name FILE = ''FILE''"
| "field_name MD5 = ''MD5''"
| "field_name MEDIA_TYPE = ''MEDIA_TYPE''"
| "field_name MIME_TYPE = ''MIME_TYPE''"
| "field_name MODIFIED = ''MODIFIED''"
| "field_name NAME = ''NAME''"
| "field_name ORIGIN_PATH = ''ORIGIN_PATH''"
| "field_name OWNER = ''OWNER''"
| "field_name PATH = ''PATH''"
| "field_name PREVIEW = ''PREVIEW''"
| "field_name PUBLIC_KEY = ''PUBLIC_KEY''"
| "field_name PUBLIC_URL = ''PUBLIC_URL''"
| "field_name RESOURCE_ID = ''RESOURCE_ID''"
| "field_name REVISION = ''REVISION''"
| "field_name SHA256 = ''SHA256''"
| "field_name SIZE = ''SIZE''"
| "field_name SIZES = ''SIZES''"
| "field_name TYPE' = ''TYPE''"
| "field_name VIEWS_COUNT = ''VIEWS_COUNT''"
| "field_name EMBEDDED_ITEMS = ''EMBEDDED_ITEMS''"
| "field_name EMBEDDED_LIMIT = ''EMBEDDED_LIMIT''"
| "field_name EMBEDDED_OFFSET = ''EMBEDDED_OFFSET''"
| "field_name EMBEDDED_PATH = ''EMBEDDED_PATH''"
| "field_name EMBEDDED_PUBLIC_KEY = ''EMBEDDED_PUBLIC_KEY''"
| "field_name EMBEDDED_SORT = ''EMBEDDED_SORT''"
| "field_name EMBEDDED_TOTAL = ''EMBEDDED_TOTAL''"
| "field_name EMBEDDED_ITEMS_ANTIVIRUS_STATUS = ''EMBEDDED_ITEMS_ANTIVIRUS_STATUS''"
| "field_name EMBEDDED_ITEMS_COMMENT_IDS = ''EMBEDDED_ITEMS_COMMENT_IDS''"
| "field_name EMBEDDED_ITEMS_CREATED = ''EMBEDDED_ITEMS_CREATED''"
| "field_name EMBEDDED_ITEMS_CUSTOM_PROPERTIES = ''EMBEDDED_ITEMS_CUSTOM_PROPERTIES''"
| "field_name EMBEDDED_ITEMS_EXIF = ''EMBEDDED_ITEMS_EXIF''"
| "field_name EMBEDDED_ITEMS_FILE = ''EMBEDDED_ITEMS_FILE''"
| "field_name EMBEDDED_ITEMS_MD5 = ''EMBEDDED_ITEMS_MD5''"
| "field_name EMBEDDED_ITEMS_MEDIA_TYPE = ''EMBEDDED_ITEMS_MEDIA_TYPE''"
| "field_name EMBEDDED_ITEMS_MIME_TYPE = ''EMBEDDED_ITEMS_MIME_TYPE''"
| "field_name EMBEDDED_ITEMS_MODIFIED = ''EMBEDDED_ITEMS_MODIFIED''"
| "field_name EMBEDDED_ITEMS_NAME = ''EMBEDDED_ITEMS_NAME''"
| "field_name EMBEDDED_ITEMS_PATH = ''EMBEDDED_ITEMS_PATH''"
| "field_name EMBEDDED_ITEMS_PREVIEW = ''EMBEDDED_ITEMS_PREVIEW''"
| "field_name EMBEDDED_ITEMS_PUBLIC_KEY = ''EMBEDDED_ITEMS_PUBLIC_KEY''"
| "field_name EMBEDDED_ITEMS_PUBLIC_URL = ''EMBEDDED_ITEMS_PUBLIC_URL''"
| "field_name EMBEDDED_ITEMS_RESOURCE_ID = ''EMBEDDED_ITEMS_RESOURCE_ID''"
| "field_name EMBEDDED_ITEMS_REVISION = ''EMBEDDED_ITEMS_REVISION''"
| "field_name EMBEDDED_ITEMS_SHA256 = ''EMBEDDED_ITEMS_SHA256''"
| "field_name EMBEDDED_ITEMS_SIZE = ''EMBEDDED_ITEMS_SIZE''"
| "field_name EMBEDDED_ITEMS_SIZES = ''EMBEDDED_ITEMS_SIZES''"
| "field_name EMBEDDED_ITEMS_TYPE = ''EMBEDDED_ITEMS_TYPE''"

subsection \<open>The dataclass \<^verbatim>\<open>ResourceRequestParams\<close>\<close>

text \<open>\<^verbatim>\<open>FieldsType\<close>: a single selector or a tuple of selectors.\<close>

datatype FieldsType = Single FieldOptions | Tuple "FieldOptions list"

record ResourceRequestParams =
  public_key :: string
  fields' :: "FieldsType option"
  limit :: "int option"
  offset :: "int option"
  path :: "string option"
  preview_crop :: "bool option"
  preview_size :: "PreviewSizeOptions option"
  sort' :: "SortOptions option"

text \<open>
  The generated constructor called with the public key alone; every other field takes the
  default written in the class body.
\<close>

definition ResourceRequestParams_init :: "string \<Rightarrow> ResourceRequestParams" where
  "ResourceRequestParams_init k =
     \<lparr>public_key = k, fields' = None, limit = Some 1000000000000000000, offset = None,
      path = None, preview_crop = None, preview_size = None, sort' = None\<rparr>"

text \<open>The values that the dictionary of parameters can hold (\<^verbatim>\<open>FilteredDictType\<close>).\<close>

datatype param_value =
    VStr string
  | VInt int
  | VBool bool
  | VField FieldOptions
  | VFields "FieldOptions list"
  | VSort SortOptions
  | VPreviewSize PreviewSizeOptions

fun fields_param :: "FieldsType \<Rightarrow> param_value" where
  "fields_param (Single f) = VField f"
| "fields_param (Tuple fs) = VFields fs"

text \<open>
  \<^verbatim>\<open>dataclasses.asdict\<close>: the fields in the order of their declaration, \<open>None\<close> for a
  field that holds Python's \<^verbatim>\<open>None\<close>. A dictionary is an association list, which keeps
  the insertion order that \<^verbatim>\<open>urlencode\<close> later reads.
\<close>

definition asdict :: "ResourceRequestParams \<Rightarrow> (string \<times> param_value option) list" where
  "asdict p =
     [(''public_key'', Some (VStr (public_key p))),
      (''fields'', map_option fields_param (fields' p)),
      (''limit'', map_option VInt (limit p)),
      (''offset'', map_option VInt (offset p)),
      (''path'', map_option VStr (path p)),
      (''preview_crop'', map_option VBool (preview_crop p)),
      (''preview_size'', map_option VPreviewSize (preview_size p)),
      (''sort'', map_option VSort (sort' p))]"

fun not_none_items :: "(string \<times> 'a option) list \<Rightarrow> (string \<times> 'a) list" where
  "not_none_items [] = []"
| "not_none_items ((k, None) # kvs) = not_none_items kvs"
| "not_none_items ((k, Some v) # kvs) = (k, v) # not_none_items kvs"

text \<open>
  The property \<^verbatim>\<open>prepared_dict\<close>: the comprehension that drops the \<^verbatim>\<open>None\<close> values,
  then, when \<^verbatim>\<open>fields\<close> is a tuple, the assignment of the comma-joined string to the key
  \<^verbatim>\<open>"fields"\<close>; \<^verbatim>\<open>field.value[1:]\<close> is \<^term>\<open>drop 1\<close>.
\<close>

definition prepared_dict :: "ResourceRequestParams \<Rightarrow> (string \<times> param_value) list" where
  "prepared_dict p =
     (let result = not_none_items (asdict p)
      in case fields' p of
           Some (Tuple fs) \<Rightarrow>
             AList.update ''fields'' (VStr (join '','' (map (\<lambda>field. drop 1 (field_value field)) fs))) result
         | _ \<Rightarrow> result)"

subsection \<open>\<^verbatim>\<open>urllib.parse\<close>: \<^verbatim>\<open>quote\<close>, \<^verbatim>\<open>urlencode\<close>, \<^verbatim>\<open>urljoin\<close>\<close>

definition always_safe :: "char \<Rightarrow> bool" where
  "always_safe c \<longleftrightarrow>
     c \<in> set ''ABCDEFGHIJKLMNOPQRSTUVWXYZabcdefghijklmnopqrstuvwxyz0123456789_.-~''"

definition hex_digit :: "nat \<Rightarrow> char" where
  "hex_digit d = ''0123456789ABCDEF'' ! (d mod 16)"

text \<open>Percent-encoding of every byte that is neither always safe nor in \<open>safe\<close>.\<close>

definition quote_bytes :: "string \<Rightarrow> string \<Rightarrow> string" where
  "quote_bytes safe s =
     concat (map (\<lambda>c. if always_safe c \<or> c \<in> set safe then [c]
                      else [CHR ''%'', hex_digit (of_char c div 16), hex_digit (of_char c mod 16)]) s)"

text \<open>\<^verbatim>\<open>quote(s)\<close> keeps \<^verbatim>\<open>/\<close>; \<^verbatim>\<open>quote_plus(s)\<close> keeps nothing more and writes a space as \<^verbatim>\<open>+\<close>.\<close>

definition quote :: "string \<Rightarrow> string" where
  "quote s = quote_bytes ''/'' s"

definition quote_plus :: "string \<Rightarrow> string" where
  "quote_plus s = map (\<lambda>c. if c = CHR '' '' then CHR ''+'' else c) (quote_bytes '' '' s)"

text \<open>\<^verbatim>\<open>str.replace(" ", "+")\<close>.\<close>

definition replace_space_plus :: "string \<Rightarrow> string" where
  "replace_space_plus s = map (\<lambda>c. if c = CHR '' '' then CHR ''+'' else c) s"

text \<open>
  \<^verbatim>\<open>str(v)\<close> of a parameter value, as \<^verbatim>\<open>urlencode\<close> applies it. A member of a
  \<^verbatim>\<open>StrEnum\<close> prints its value; a tuple prints the \<^verbatim>\<open>repr\<close> of its members.
\<close>

definition repr_field :: "FieldOptions \<Rightarrow> string" where
  "repr_field f =
     ''<FieldOptions.'' @ field_name f @ '': '' @ [CHR 0x27] @ field_value f @ [CHR 0x27] @ ''>''"

definition repr_tuple :: "string list \<Rightarrow> string" where
  "repr_tuple xs = ''('' @ join '', '' xs @ (if length xs = 1 then '',)'' else '')'')"

fun str_param :: "param_value \<Rightarrow> error + string" where
  "str_param (VStr s) = Inr s"
| "str_param (VInt i) = str_int i"
| "str_param (VBool b) = Inr (str_bool b)"
| "str_param (VField f) = Inr (field_value f)"
| "str_param (VFields fs) = Inr (repr_tuple (map repr_field fs))"
| "str_param (VSort so) = Inr (sort_value so)"
| "str_param (VPreviewSize ps) = Inr (preview_size_value ps)"

text \<open>
  \<^verbatim>\<open>urlencode(query)\<close>: the loop over the items, which builds the list of
  \<^verbatim>\<open>key=value\<close> strings and stops at the first \<^verbatim>\<open>str(v)\<close> that raises, then the join.
\<close>

fun urlencode_items :: "(string \<times> param_value) list \<Rightarrow> error + string list" where
  "urlencode_items [] = Inr []"
| "urlencode_items ((k, v) # query) =
     (case str_param v of
        Inl ex \<Rightarrow> Inl ex
      | Inr sv \<Rightarrow>
          (case urlencode_items query of
             Inl ex \<Rightarrow> Inl ex
           | Inr l \<Rightarrow> Inr ((quote_plus k @ ''='' @ quote_plus sv) # l)))"

definition urlencode :: "(string \<times> param_value) list \<Rightarrow> error + string" where
  "urlencode query = (case urlencode_items query of Inl ex \<Rightarrow> Inl ex | Inr l \<Rightarrow> Inr (join ''&'' l))"

text \<open>
  \<^verbatim>\<open>urljoin(base, url)\<close> for the two shapes of reference that the client passes, against
  a base without query and fragment of its own: a reference that is only a query
  (\<^verbatim>\<open>"?..."\<close>) is appended to the base, and a plain path segment replaces what follows the
  last \<^verbatim>\<open>/\<close> of the base.
\<close>

definition urljoin :: "string \<Rightarrow> string \<Rightarrow> string" where
  "urljoin base url =
     (if url = [] then base
      else if hd url = CHR ''?'' then base @ url
      else rev (dropWhile (\<lambda>c. c \<noteq> CHR ''/'') (rev base)) @ url)"

text \<open>
  \<^verbatim>\<open>s[1:]\<close> on a string: Python removes the first character, a code point, which in the
  UTF-8 bytes of the model is the first byte and the continuation bytes
  (\<open>0x80\<close> to \<open>0xBF\<close>) that follow it.
\<close>

definition is_continuation :: "char \<Rightarrow> bool" where
  "is_continuation c \<longleftrightarrow> 128 \<le> (of_char c :: nat) \<and> (of_char c :: nat) < 192"

fun str_tail :: "string \<Rightarrow> string" where
  "str_tail [] = []"
| "str_tail (c # cs) = dropWhile is_continuation cs"

text \<open>\<^verbatim>\<open>os.path.join(a, b)\<close> of \<^verbatim>\<open>posixpath\<close>: an absolute \<open>b\<close> replaces \<open>a\<close>.\<close>

definition os_path_join :: "string \<Rightarrow> string \<Rightarrow> string" where
  "os_path_join a b =
     (if b \<noteq> [] \<and> hd b = CHR ''/'' then b
      else if a = [] \<or> last a = CHR ''/'' then a @ b
      else a @ ''/'' @ b)"

subsection \<open>The outside world: HTTP, the file system, the log\<close>

text \<open>A decoded JSON document; objects keep their keys in order.\<close>

datatype json =
    JNull
  | JBool bool
  | JNum int
  | JStr string
  | JList "json list"
  | JDict "(string \<times> json) list"

text \<open>
  What \<^verbatim>\<open>requests.get\<close> returns: the bytes of the body (\<^verbatim>\<open>.content\<close>) and the outcome
  of \<^verbatim>\<open>.json()\<close>, which raises when the body is not JSON.
\<close>

record response =
  content :: string
  json_body :: "error + json"

text \<open>
  The environment answers each request and each file-system call: an exception or a
  result. \<open>BASE_DIR\<close> is the setting imported from the project's settings.
\<close>

record env =
  http_get :: "string \<Rightarrow> error + response"
  mkdir :: "string \<Rightarrow> error option"
  open_wb :: "string \<Rightarrow> error option"
  write_bytes :: "string \<Rightarrow> string \<Rightarrow> error option"
  BASE_DIR :: string

datatype log_entry = INFO string | ERROR string

text \<open>
  The state that the operations change: the files written (path to bytes), the
  directories created, the log records and the URLs requested, both in order.
\<close>

record world =
  files :: "string \<rightharpoonup> string"
  dirs :: "string set"
  log :: "log_entry list"
  requested :: "string list"

definition logger_info :: "string \<Rightarrow> world \<Rightarrow> world" where
  "logger_info msg w = w\<lparr>log := log w @ [INFO msg]\<rparr>"

definition logger_error :: "string \<Rightarrow> world \<Rightarrow> world" where
  "logger_error msg w = w\<lparr>log := log w @ [ERROR msg]\<rparr>"

text \<open>\<^verbatim>\<open>requests.get(url)\<close>: the request is recorded, the environment answers.\<close>

definition requests_get :: "env \<Rightarrow> string \<Rightarrow> world \<Rightarrow> (error + response) \<times> world" where
  "requests_get e url w = (http_get e url, w\<lparr>requested := requested w @ [url]\<rparr>)"

subsection \<open>\<^verbatim>\<open>ResourceOperations\<close>\<close>

text \<open>
  The class constants. The base URL is the default of the source (the environment variable
  of the same name is not set); the directories are joined from \<open>BASE_DIR\<close>.
\<close>

definition YANDEX_DISK_PUBLIC_RESOURCES_BASE_URL :: string where
  "YANDEX_DISK_PUBLIC_RESOURCES_BASE_URL = ''https://cloud-api.yandex.net/v1/disk/public/resources/''"

definition PROJECT_DIR :: "env \<Rightarrow> string" where
  "PROJECT_DIR e = os_path_join (BASE_DIR e) ''..''"

definition FILES_DIR :: "env \<Rightarrow> string" where
  "FILES_DIR e = os_path_join (PROJECT_DIR e) ''files''"

text \<open>The default selectors, in the order of the tuple in the source.\<close>

definition default_fields :: "FieldOptions list" where
  "default_fields =
     [NAME, PUBLIC_URL, EMBEDDED_ITEMS_NAME, EMBEDDED_ITEMS_TYPE, EMBEDDED_ITEMS_MEDIA_TYPE,
      EMBEDDED_ITEMS_PUBLIC_URL, PATH]"

text \<open>\<^verbatim>\<open>needle in hay\<close> on two strings.\<close>

fun contains_str :: "string \<Rightarrow> string \<Rightarrow> bool" where
  "contains_str needle [] = (needle = [])"
| "contains_str needle (c # cs) =
     (take (length needle) (c # cs) = needle \<or> contains_str needle cs)"

text \<open>
  The renaming at the end of \<^verbatim>\<open>get_public_resource_dict\<close>:
  \<^verbatim>\<open>if "_embedded" in data_json: data_json["embedded"] = data_json.pop("_embedded")\<close>.
  The result says whether the branch was taken. On a dictionary \<^verbatim>\<open>in\<close> looks for the
  key, \<^verbatim>\<open>pop\<close> removes it and the assignment replaces the value of an existing key in
  place or appends a new one. A list and a string answer \<^verbatim>\<open>in\<close> but have no such
  \<^verbatim>\<open>pop\<close>; the other documents are not containers.
\<close>

fun rename_embedded :: "json \<Rightarrow> error + json \<times> bool" where
  "rename_embedded (JDict d) =
     (case map_of d ''_embedded'' of
        None \<Rightarrow> Inr (JDict d, False)
      | Some v \<Rightarrow> Inr (JDict (AList.update ''embedded'' v (AList.delete ''_embedded'' d)), True))"
| "rename_embedded (JList xs) =
     (if JStr ''_embedded'' \<in> set xs
      then Inl (TypeError ''str object cannot be interpreted as an integer'')
      else Inr (JList xs, False))"
| "rename_embedded (JStr s) =
     (if contains_str ''_embedded'' s
      then Inl (AttributeError ''str object has no attribute pop'')
      else Inr (JStr s, False))"
| "rename_embedded j = Inl (TypeError ''argument is not iterable'')"

text \<open>
  The first statement of \<^verbatim>\<open>get_public_resource_dict\<close>:
  \<^verbatim>\<open>if params.fields is None: params.fields = (...)\<close>, an assignment to the argument object.
\<close>

definition set_default_fields :: "ResourceRequestParams \<Rightarrow> ResourceRequestParams" where
  "set_default_fields params =
     (if fields' params = None then params\<lparr>fields' := Some (Tuple default_fields)\<rparr> else params)"

text \<open>The URL of the listing request: \<^verbatim>\<open>urljoin(BASE_URL, f"?{urlencode(params.prepared_dict)}")\<close>.\<close>

definition listing_url :: "ResourceRequestParams \<Rightarrow> error + string" where
  "listing_url params =
     (case urlencode (prepared_dict params) of
        Inl ex \<Rightarrow> Inl ex
      | Inr query_params \<Rightarrow> Inr (urljoin YANDEX_DISK_PUBLIC_RESOURCES_BASE_URL (''?'' @ query_params)))"

text \<open>
  \<^verbatim>\<open>get_public_resource_dict(params)\<close>. The argument object is mutated, so the
  parameters are returned with the result; an exception of \<^verbatim>\<open>urlencode\<close>, of the
  request or of \<^verbatim>\<open>.json()\<close> is not caught and leaves the function (\<open>Inl\<close>). When
  \<^verbatim>\<open>urlencode\<close> raises, nothing has been logged or requested yet.
\<close>

definition get_public_resource_dict ::
    "env \<Rightarrow> ResourceRequestParams \<Rightarrow> world \<Rightarrow> (error + json) \<times> ResourceRequestParams \<times> world" where
  "get_public_resource_dict e params w =
     (let params = set_default_fields params
      in case listing_url params of
           Inl ex \<Rightarrow> (Inl ex, params, w)
         | Inr full_url \<Rightarrow>
     (let w = logger_info (''Full URL for fetching public resource: '' @ full_url) w;
          (r, w) = requests_get e full_url w
      in case r of
           Inl ex \<Rightarrow> (Inl ex, params, w)
         | Inr resp \<Rightarrow>
             (case json_body resp of
                Inl ex \<Rightarrow> (Inl ex, params, w)
              | Inr data_json \<Rightarrow>
                  (let w = logger_info ''Successfully fetched public resource data.'' w
                   in case rename_embedded data_json of
                        Inl ex \<Rightarrow> (Inl ex, params, w)
                      | Inr (data_json, renamed) \<Rightarrow>
                          (Inr data_json, params,
                           if renamed
                           then logger_info ''Renamed '_embedded' to 'embedded' in response data.'' w
                           else w)))))"

text \<open>\<^verbatim>\<open>response.json()["href"]\<close>: the subscript on the decoded document.\<close>

fun getitem_href :: "json \<Rightarrow> error + json" where
  "getitem_href (JDict d) =
     (case map_of d ''href'' of
        None \<Rightarrow> Inl (KeyError ([CHR 0x27] @ ''href'' @ [CHR 0x27]))
      | Some v \<Rightarrow> Inr v)"
| "getitem_href (JList xs) = Inl (TypeError ''list indices must be integers or slices, not str'')"
| "getitem_href (JStr s) = Inl (TypeError ''string indices must be integers, not str'')"
| "getitem_href j = Inl (TypeError ''object is not subscriptable'')"

text \<open>
  \<^verbatim>\<open>requests.get\<close> on the value found under \<^verbatim>\<open>"href"\<close>: a string is requested, anything
  else is no URL and the library raises before it sends a request.
\<close>

fun requests_get_json :: "env \<Rightarrow> json \<Rightarrow> world \<Rightarrow> (error + response) \<times> world" where
  "requests_get_json e (JStr url) w = requests_get e url w"
| "requests_get_json e j w = (Inl (RequestException ''Invalid URL: No scheme supplied''), w)"

text \<open>
  The body of the \<^verbatim>\<open>try\<close> block of \<^verbatim>\<open>download_files\<close> for one file, given the response
  of the first request. \<open>Some ex\<close> is an exception raised inside the block.
\<close>

definition download_try :: "env \<Rightarrow> string \<Rightarrow> response \<Rightarrow> world \<Rightarrow> error option \<times> world" where
  "download_try e file_path resp w =
     (case json_body resp of
        Inl ex \<Rightarrow> (Some ex, w)
      | Inr j \<Rightarrow>
     (case getitem_href j of
        Inl ex \<Rightarrow> (Some ex, w)
      | Inr href \<Rightarrow>
     (case requests_get_json e href w of
        (Inl ex, w) \<Rightarrow> (Some ex, w)
      | (Inr response_content, w) \<Rightarrow>
     (case mkdir e (FILES_DIR e) of
        Some ex \<Rightarrow> (Some ex, w)
      | None \<Rightarrow>
     (let w = w\<lparr>dirs := insert (FILES_DIR e) (dirs w)\<rparr>;
          file_local_path = os_path_join (FILES_DIR e) (str_tail file_path)
      in case open_wb e file_local_path of
           Some ex \<Rightarrow> (Some ex, w)
         | None \<Rightarrow>
     (let w = w\<lparr>files := (files w)(file_local_path \<mapsto> [])\<rparr>
      in case write_bytes e file_local_path (content response_content) of
           Some ex \<Rightarrow> (Some ex, w)
         | None \<Rightarrow>
             (None, logger_info (''INFO: File downloaded successfully: '' @ file_local_path)
                      (w\<lparr>files := (files w)(file_local_path \<mapsto> content response_content)\<rparr>))))))))"

text \<open>The URL of the first request for one file, which asks for the download link.\<close>

definition download_url :: "string \<Rightarrow> string \<Rightarrow> string" where
  "download_url new_public_key file_path =
     urljoin (urljoin YANDEX_DISK_PUBLIC_RESOURCES_BASE_URL ''download'')
       (''?public_key='' @ new_public_key @ ''&path='' @ quote file_path)"

text \<open>
  One iteration of the loop of \<^verbatim>\<open>download_files\<close>: the first request stands before the
  \<^verbatim>\<open>try\<close>, so its exception leaves the function (\<open>Some ex\<close>); an exception of the
  \<^verbatim>\<open>try\<close> block is logged by the \<^verbatim>\<open>except\<close> clause and the iteration ends normally.
\<close>

definition download_body :: "env \<Rightarrow> string \<Rightarrow> string \<Rightarrow> world \<Rightarrow> error option \<times> world" where
  "download_body e new_public_key file_path w =
     (let full_url = download_url new_public_key file_path;
          w = logger_info (''Full URL for downloading file: '' @ full_url) w;
          (r, w) = requests_get e full_url w
      in case r of
           Inl ex \<Rightarrow> (Some ex, w)
         | Inr resp \<Rightarrow>
             (case download_try e file_path resp w of
                (Some ex, w) \<Rightarrow>
                  (None, logger_error (''Failed to download file '' @ file_path @ '': '' @ str_error ex) w)
              | (None, w) \<Rightarrow> (None, w)))"

fun download_loop :: "env \<Rightarrow> string \<Rightarrow> string list \<Rightarrow> world \<Rightarrow> error option \<times> world" where
  "download_loop e new_public_key [] w = (None, w)"
| "download_loop e new_public_key (file_path # rest) w =
     (case download_body e new_public_key file_path w of
        (Some ex, w) \<Rightarrow> (Some ex, w)
      | (None, w) \<Rightarrow> download_loop e new_public_key rest w)"

text \<open>
  \<^verbatim>\<open>download_files(public_key, files_paths)\<close>: \<open>None\<close> when the call returns, \<open>Some ex\<close>
  when the exception \<open>ex\<close> leaves it.
\<close>

definition download_files :: "env \<Rightarrow> string \<Rightarrow> string list \<Rightarrow> world \<Rightarrow> error option \<times> world" where
  "download_files e public_key' files_paths w =
     download_loop e (quote (replace_space_plus public_key')) files_paths w"

subsection \<open>Fixtures: an environment that answers, an empty world\<close>

text \<open>
  An environment in which every request is answered with the document \<open>j\<close> and the
  bytes \<open>body\<close>, and every file-system call succeeds.
\<close>

definition env_ok :: "json \<Rightarrow> string \<Rightarrow> env" where
  "env_ok j body =
     \<lparr>http_get = (\<lambda>url. Inr \<lparr>content = body, json_body = Inr j\<rparr>),
      mkdir = (\<lambda>d. None),
      open_wb = (\<lambda>f. None),
      write_bytes = (\<lambda>f b. None),
      BASE_DIR = ''/srv/app''\<rparr>"

definition world0 :: world where
  "world0 = \<lparr>files = Map.empty, dirs = {}, log = [], requested = []\<rparr>"

text \<open>
  Two shapes of response: the answer of the download endpoint, a JSON object with the
  link under \<^verbatim>\<open>"href"\<close>, and the answer of the link, the bytes of the file.
\<close>

definition link :: "string \<Rightarrow> response" where
  "link href = \<lparr>content = [], json_body = Inr (JDict [(''href'', JStr href)])\<rparr>"

definition body :: "string \<Rightarrow> response" where
  "body bytes = \<lparr>content = bytes, json_body = Inl (JSONDecodeError ''Expecting value'')\<rparr>"

text \<open>
  The batch A, B, C under the public key \<^verbatim>\<open>key\<close>: the requests for A and C are answered;
  \<open>link_B\<close> is the outcome of the first request for B (the download link) and \<open>body_B\<close>
  the outcome of the second (the bytes).
\<close>

definition env_batch :: "(error + response) \<Rightarrow> (error + response) \<Rightarrow> env" where
  "env_batch link_B body_B =
     \<lparr>http_get = (\<lambda>url.
        if url = ''https://cloud-api.yandex.net/v1/disk/public/resources/download?public_key=key&path=/A''
        then Inr (link ''https://downloader/A'')
        else if url = ''https://cloud-api.yandex.net/v1/disk/public/resources/download?public_key=key&path=/B''
        then link_B
        else if url = ''https://cloud-api.yandex.net/v1/disk/public/resources/download?public_key=key&path=/C''
        then Inr (link ''https://downloader/C'')
        else if url = ''https://downloader/A'' then Inr (body ''bytes of A'')
        else if url = ''https://downloader/B'' then body_B
        else if url = ''https://downloader/C'' then Inr (body ''bytes of C'')
        else Inl (RequestException ''Name or service not known'')),
      mkdir = (\<lambda>d. None),
      open_wb = (\<lambda>f. None),
      write_bytes = (\<lambda>f b. None),
      BASE_DIR = ''/srv/app''\<rparr>"

text \<open>The failures that \<^verbatim>\<open>logger.error\<close> recorded.\<close>

definition logged_errors :: "world \<Rightarrow> string list" where
  "logged_errors w = concat (map (\<lambda>x. case x of ERROR m \<Rightarrow> [m] | INFO m \<Rightarrow> []) (log w))"

section \<open>Properties\<close>

subsection \<open>Auxiliary facts\<close>

text \<open>The number of digits: at most \<open>k\<close> exactly for the integers below \<open>10 ^ k\<close>.\<close>

lemma length_str_digits_pos: "0 < length (str_digits n)"
  by (subst str_digits.simps) simp

lemma length_str_digits_le:
  "0 \<le> n \<Longrightarrow> 0 < k \<Longrightarrow> length (str_digits n) \<le> k \<longleftrightarrow> n < 10 ^ k"
proof (induction n arbitrary: k rule: str_digits.induct)
  case (1 n)
  show ?case
  proof (cases "n < 10")
    case True
    have "(10::int) ^ 1 \<le> 10 ^ k" using 1(3) by (intro power_increasing) auto
    with True have "n < 10 ^ k" by simp
    moreover have "length (str_digits n) = 1" using True by (subst str_digits.simps) simp
    ultimately show ?thesis using 1(3) by simp
  next
    case False
    have len: "length (str_digits n) = Suc (length (str_digits (n div 10)))"
      using False by (subst str_digits.simps) simp
    show ?thesis
    proof (cases "k = 1")
      case True
      then show ?thesis using False len length_str_digits_pos [of "n div 10"] by simp
    next
      case k: False
      then obtain j where j: "k = Suc j" "0 < j" using 1(3) by (cases k) auto
      have "0 \<le> n div 10" using 1(2) by simp
      from 1(1) [OF False this j(2)]
      have "length (str_digits (n div 10)) \<le> j \<longleftrightarrow> n div 10 < 10 ^ j" .
      moreover have "n div 10 < m \<longleftrightarrow> n < 10 * m" for m :: int
        by presburger
      then have "n div 10 < 10 ^ j \<longleftrightarrow> n < 10 ^ Suc j"
        by simp
      ultimately show ?thesis using len j by simp
    qed
  qed
qed

lemma int_max_str_digits_pos: "0 < int_max_str_digits"
  by (simp add: int_max_str_digits_def)

lemma str_int_raises:
  "10 ^ int_max_str_digits \<le> \<bar>i\<bar> \<Longrightarrow> str_int i = Inl digits_limit_error"
  using length_str_digits_le [of "\<bar>i\<bar>" int_max_str_digits] int_max_str_digits_pos
  by (simp add: str_int_def Let_def)

lemma str_int_returns:
  "\<bar>i\<bar> < 10 ^ int_max_str_digits \<Longrightarrow>
   str_int i = Inr (if i < 0 then CHR ''-'' # str_digits \<bar>i\<bar> else str_digits \<bar>i\<bar>)"
  using length_str_digits_le [of "\<bar>i\<bar>" int_max_str_digits] int_max_str_digits_pos
  by (simp add: str_int_def Let_def)

lemma str_int_raises_iff:
  "(\<exists>ex. str_int i = Inl ex) \<longleftrightarrow> 10 ^ int_max_str_digits \<le> \<bar>i\<bar>"
proof (cases "10 ^ int_max_str_digits \<le> \<bar>i\<bar>")
  case True
  then show ?thesis by (simp add: str_int_raises)
next
  case False
  then have "\<bar>i\<bar> < 10 ^ int_max_str_digits" by simp
  from str_int_returns [OF this] False show ?thesis by simp
qed

lemma str_int_100: "str_int 100 = Inr ''100''"
  by (simp add: str_int_def str_digits.simps digit_char_def int_max_str_digits_def)

lemma str_int_200: "str_int 200 = Inr ''200''"
  by (simp add: str_int_def str_digits.simps digit_char_def int_max_str_digits_def)

lemma is_continuation_ascii: "(of_char c :: nat) < 128 \<Longrightarrow> \<not> is_continuation c"
  by (simp add: is_continuation_def)

text \<open>A first character of two bytes (e with an acute accent, \<open>0xC3 0xA9\<close>): the slice removes both.\<close>

lemma str_tail_code_point:
  "str_tail [CHR 0xC3, CHR 0xA9, CHR ''.'', CHR ''t'', CHR ''x'', CHR ''t''] = ''.txt''"
  by (simp add: is_continuation_def)

lemma str_tail_batch:
  "str_tail ''/A'' = ''A''" "str_tail ''/B'' = ''B''" "str_tail ''/C'' = ''C''"
  "str_tail ''a.txt'' = ''.txt''"
  by (simp_all add: is_continuation_def)

lemma field_value_leading_dot: "field_value f = CHR ''.'' # drop 1 (field_value f)"
  by (cases f) simp_all

lemma map_of_prepared_dict_tuple:
  "fields' p = Some (Tuple fs) \<Longrightarrow>
   map_of (prepared_dict p) ''fields'' =
     Some (VStr (join '','' (map (\<lambda>field. drop 1 (field_value field)) fs)))"
  by (simp add: prepared_dict_def update_conv')

lemma get_public_resource_dict_result:
  assumes "listing_url (set_default_fields p) = Inr url"
    and "http_get e url = Inr resp"
    and "json_body resp = Inr data_json"
  shows "fst (get_public_resource_dict e p w) = map_sum id fst (rename_embedded data_json)"
  using assms
  by (simp add: get_public_resource_dict_def Let_def requests_get_def split: sum.splits prod.splits)

lemma get_public_resource_dict_params:
  "fst (snd (get_public_resource_dict e p w)) = set_default_fields p"
  by (simp add: get_public_resource_dict_def Let_def requests_get_def split: sum.splits prod.splits)

lemma get_public_resource_dict_requested:
  "requested (snd (snd (get_public_resource_dict e p w))) =
     requested w @ (case listing_url (set_default_fields p) of Inl ex \<Rightarrow> [] | Inr url \<Rightarrow> [url])"
  by (simp add: get_public_resource_dict_def Let_def requests_get_def logger_info_def
           split: sum.splits prod.splits)

lemma get_public_resource_dict_urlencode_raises:
  "listing_url (set_default_fields p) = Inl ex \<Longrightarrow>
   get_public_resource_dict e p w = (Inl ex, set_default_fields p, w)"
  by (simp add: get_public_resource_dict_def Let_def)

text \<open>
  \<^verbatim>\<open>urlencode\<close> of the prepared dictionary raises only through the conversion of
  \<^verbatim>\<open>limit\<close> or \<^verbatim>\<open>offset\<close>: within the digit limit the URL is built.
\<close>

lemma not_none_items_iff: "(k, v) \<in> set (not_none_items kvs) \<longleftrightarrow> (k, Some v) \<in> set kvs"
  by (induction kvs rule: not_none_items.induct) auto

lemma set_update_cases:
  "(k, v) \<in> set (AList.update k' v' al) \<Longrightarrow> (k, v) = (k', v') \<or> (k, v) \<in> set al"
  by (induction al) (auto split: if_splits)

lemma Some_eq_map_option: "Some y = map_option f xo \<longleftrightarrow> (\<exists>z. xo = Some z \<and> f z = y)"
  by (cases xo) auto

lemma str_param_asdict:
  assumes "\<And>n. limit p = Some n \<or> offset p = Some n \<Longrightarrow> \<bar>n\<bar> < 10 ^ int_max_str_digits"
    and "(k, Some v) \<in> set (asdict p)"
  shows "\<exists>s. str_param v = Inr s"
proof -
  have int: "\<exists>s. str_param (VInt n) = Inr s" if "limit p = Some n \<or> offset p = Some n" for n
    using str_int_returns [OF assms(1) [OF that]] by simp
  have fld: "\<exists>s. str_param (fields_param ft) = Inr s" for ft
    by (cases ft) simp_all
  from assms(2) have
    "v = VStr (public_key p) \<or> (\<exists>ft. v = fields_param ft)
     \<or> (\<exists>n. v = VInt n \<and> (limit p = Some n \<or> offset p = Some n))
     \<or> (\<exists>s. v = VStr s) \<or> (\<exists>b. v = VBool b) \<or> (\<exists>ps. v = VPreviewSize ps)
     \<or> (\<exists>so. v = VSort so)"
    by (auto simp add: asdict_def Some_eq_map_option)
  then show ?thesis
    using int fld by auto
qed

lemma str_param_prepared_dict:
  assumes "\<And>n. limit p = Some n \<or> offset p = Some n \<Longrightarrow> \<bar>n\<bar> < 10 ^ int_max_str_digits"
    and "(k, v) \<in> set (prepared_dict p)"
  shows "\<exists>s. str_param v = Inr s"
proof -
  have base: "\<exists>s. str_param v' = Inr s" if "(k', v') \<in> set (not_none_items (asdict p))" for k' v'
    using str_param_asdict [OF assms(1)] that by (simp add: not_none_items_iff)
  from assms(2) show ?thesis
    using base
    by (auto simp add: prepared_dict_def Let_def split: option.splits FieldsType.splits
          dest!: set_update_cases)
qed

lemma urlencode_items_returns:
  "(\<And>k v. (k, v) \<in> set query \<Longrightarrow> \<exists>s. str_param v = Inr s) \<Longrightarrow>
   \<exists>l. urlencode_items query = Inr l"
proof (induction query)
  case Nil
  then show ?case by simp
next
  case (Cons kv query)
  obtain k v where kv: "kv = (k, v)" by (cases kv)
  from Cons.prems [of k v] kv obtain s where "str_param v = Inr s" by auto
  moreover from Cons.IH Cons.prems obtain l where "urlencode_items query = Inr l" by auto
  ultimately show ?case using kv by simp
qed

lemma listing_url_returns:
  assumes "\<And>n. limit p = Some n \<or> offset p = Some n \<Longrightarrow> \<bar>n\<bar> < 10 ^ int_max_str_digits"
  shows "\<exists>url. listing_url p = Inr url"
proof -
  from urlencode_items_returns [of "prepared_dict p"] str_param_prepared_dict [OF assms]
  obtain l where "urlencode_items (prepared_dict p) = Inr l" by blast
  then show ?thesis by (simp add: listing_url_def urlencode_def)
qed

lemma default_fields_query:
  "map_of (prepared_dict (p\<lparr>fields' := Some (Tuple default_fields)\<rparr>)) ''fields'' =
     Some (VStr ''name,public_url,_embedded.items.name,_embedded.items.type,_embedded.items.media_type,_embedded.items.public_url,path'')"
  by (simp add: map_of_prepared_dict_tuple default_fields_def)

lemma listing_url_default:
  "listing_url ((ResourceRequestParams_init ''k'')\<lparr>fields' := Some (Tuple default_fields)\<rparr>) =
     Inr ''https://cloud-api.yandex.net/v1/disk/public/resources/?public_key=k&fields=name%2Cpublic_url%2C_embedded.items.name%2C_embedded.items.type%2C_embedded.items.media_type%2C_embedded.items.public_url%2Cpath&limit=1000000000000000000''"
  by code_simp

lemma listing_url_single:
  "listing_url ((ResourceRequestParams_init ''k'')\<lparr>fields' := Some (Single NAME)\<rparr>) =
     Inr ''https://cloud-api.yandex.net/v1/disk/public/resources/?public_key=k&fields=.name&limit=1000000000000000000''"
  by code_simp

lemma download_url_A: "download_url (quote (replace_space_plus ''key'')) ''/A'' =
   ''https://cloud-api.yandex.net/v1/disk/public/resources/download?public_key=key&path=/A''"
  by code_simp

lemma download_url_B: "download_url (quote (replace_space_plus ''key'')) ''/B'' =
   ''https://cloud-api.yandex.net/v1/disk/public/resources/download?public_key=key&path=/B''"
  by code_simp

lemma download_url_C: "download_url (quote (replace_space_plus ''key'')) ''/C'' =
   ''https://cloud-api.yandex.net/v1/disk/public/resources/download?public_key=key&path=/C''"
  by code_simp


lemma FILES_DIR_batch: "FILES_DIR (env_batch l b) = ''/srv/app/../files''"
  by (simp add: FILES_DIR_def PROJECT_DIR_def os_path_join_def env_batch_def)

lemma FILES_DIR_ok: "FILES_DIR (env_ok j b) = ''/srv/app/../files''"
  by (simp add: FILES_DIR_def PROJECT_DIR_def os_path_join_def env_ok_def)


lemma download_try_success:
  assumes "json_body resp = Inr j" and "getitem_href j = Inr (JStr href)"
    and "http_get e href = Inr rc" and "mkdir e (FILES_DIR e) = None"
    and "open_wb e (os_path_join (FILES_DIR e) (str_tail fp)) = None"
    and "write_bytes e (os_path_join (FILES_DIR e) (str_tail fp)) (content rc) = None"
  shows "download_try e fp resp w =
     (None, logger_info (''INFO: File downloaded successfully: '' @ os_path_join (FILES_DIR e) (str_tail fp))
        (w\<lparr>requested := requested w @ [href],
           dirs := insert (FILES_DIR e) (dirs w),
           files := (files w)(os_path_join (FILES_DIR e) (str_tail fp) \<mapsto> content rc)\<rparr>))"
  using assms by (simp add: download_try_def requests_get_def Let_def)

lemma download_body_raises:
  "http_get e (download_url k fp) = Inl ex \<Longrightarrow>
   download_body e k fp w =
     (Some ex, w\<lparr>log := log w @ [INFO (''Full URL for downloading file: '' @ download_url k fp)],
                 requested := requested w @ [download_url k fp]\<rparr>)"
  by (simp add: download_body_def requests_get_def Let_def logger_info_def)


lemma download_body_success:
  assumes "http_get e (download_url k fp) = Inr resp"
    and "json_body resp = Inr j" and "getitem_href j = Inr (JStr href)"
    and "http_get e href = Inr rc" and "mkdir e (FILES_DIR e) = None"
    and "open_wb e (os_path_join (FILES_DIR e) (str_tail fp)) = None"
    and "write_bytes e (os_path_join (FILES_DIR e) (str_tail fp)) (content rc) = None"
  shows "download_body e k fp w =
     (None, w\<lparr>log := log w @ [INFO (''Full URL for downloading file: '' @ download_url k fp),
                               INFO (''INFO: File downloaded successfully: ''
                                     @ os_path_join (FILES_DIR e) (str_tail fp))],
              requested := requested w @ [download_url k fp, href],
              dirs := insert (FILES_DIR e) (dirs w),
              files := (files w)(os_path_join (FILES_DIR e) (str_tail fp) \<mapsto> content rc)\<rparr>)"
  using assms(1) download_try_success [OF assms(2-7)]
  by (simp add: download_body_def requests_get_def Let_def logger_info_def)

lemma download_body_content_request_fails:
  assumes "http_get e (download_url k fp) = Inr resp"
    and "json_body resp = Inr j" and "getitem_href j = Inr (JStr href)"
    and "http_get e href = Inl ex"
  shows "download_body e k fp w =
     (None, w\<lparr>log := log w @ [INFO (''Full URL for downloading file: '' @ download_url k fp),
                               ERROR (''Failed to download file '' @ fp @ '': '' @ str_error ex)],
              requested := requested w @ [download_url k fp, href]\<rparr>)"
  using assms
  by (simp add: download_body_def download_try_def requests_get_def Let_def
        logger_info_def logger_error_def)

text \<open>
  The isolation that the \<^verbatim>\<open>try\<close> block gives: when the first request of every file is
  answered, whatever happens afterwards, the call returns and has made the first request
  of every file of the list.
\<close>

lemma download_body_requested:
  "\<exists>more. requested (snd (download_body e k fp w)) = requested w @ download_url k fp # more"
  by (auto simp add: download_body_def download_try_def requests_get_def Let_def
        logger_info_def logger_error_def
        split: sum.splits option.splits prod.splits json.splits
        elim!: requests_get_json.elims getitem_href.elims)

lemma batch_A:
  "download_body (env_batch l b) (quote (replace_space_plus ''key'')) ''/A'' w =
     (None, w\<lparr>log := log w @
                 [INFO ''Full URL for downloading file: https://cloud-api.yandex.net/v1/disk/public/resources/download?public_key=key&path=/A'',
                  INFO ''INFO: File downloaded successfully: /srv/app/../files/A''],
              requested := requested w @
                 [''https://cloud-api.yandex.net/v1/disk/public/resources/download?public_key=key&path=/A'',
                  ''https://downloader/A''],
              dirs := insert ''/srv/app/../files'' (dirs w),
              files := (files w)(''/srv/app/../files/A'' \<mapsto> ''bytes of A'')\<rparr>)"
  using download_body_success [of "env_batch l b" "quote (replace_space_plus ''key'')" "''/A''"
          "link ''https://downloader/A''" "JDict [(''href'', JStr ''https://downloader/A'')]"
          "''https://downloader/A''" "body ''bytes of A''" w]
  by (simp add: download_url_A FILES_DIR_batch os_path_join_def is_continuation_def)
     (simp add: env_batch_def link_def body_def)

lemma batch_C:
  "download_body (env_batch l b) (quote (replace_space_plus ''key'')) ''/C'' w =
     (None, w\<lparr>log := log w @
                 [INFO ''Full URL for downloading file: https://cloud-api.yandex.net/v1/disk/public/resources/download?public_key=key&path=/C'',
                  INFO ''INFO: File downloaded successfully: /srv/app/../files/C''],
              requested := requested w @
                 [''https://cloud-api.yandex.net/v1/disk/public/resources/download?public_key=key&path=/C'',
                  ''https://downloader/C''],
              dirs := insert ''/srv/app/../files'' (dirs w),
              files := (files w)(''/srv/app/../files/C'' \<mapsto> ''bytes of C'')\<rparr>)"
  using download_body_success [of "env_batch l b" "quote (replace_space_plus ''key'')" "''/C''"
          "link ''https://downloader/C''" "JDict [(''href'', JStr ''https://downloader/C'')]"
          "''https://downloader/C''" "body ''bytes of C''" w]
  by (simp add: download_url_C FILES_DIR_batch os_path_join_def is_continuation_def)
     (simp add: env_batch_def link_def body_def)

lemma batch_B_content_request_fails:
  "download_body (env_batch (Inr (link ''https://downloader/B'')) (Inl (RequestException ''Connection refused'')))
       (quote (replace_space_plus ''key'')) ''/B'' w =
     (None, w\<lparr>log := log w @
                 [INFO ''Full URL for downloading file: https://cloud-api.yandex.net/v1/disk/public/resources/download?public_key=key&path=/B'',
                  ERROR ''Failed to download file /B: Connection refused''],
              requested := requested w @
                 [''https://cloud-api.yandex.net/v1/disk/public/resources/download?public_key=key&path=/B'',
                  ''https://downloader/B'']\<rparr>)"
  using download_body_content_request_fails
          [of "env_batch (Inr (link ''https://downloader/B'')) (Inl (RequestException ''Connection refused''))"
              "quote (replace_space_plus ''key'')" "''/B''"
              "link ''https://downloader/B''" "JDict [(''href'', JStr ''https://downloader/B'')]"
              "''https://downloader/B''" "RequestException ''Connection refused''" w]
  by (simp add: download_url_B)
     (simp add: env_batch_def link_def)

lemma batch_B_first_request_fails:
  "download_body (env_batch (Inl (RequestException ''Connection refused'')) b)
       (quote (replace_space_plus ''key'')) ''/B'' w =
     (Some (RequestException ''Connection refused''),
      w\<lparr>log := log w @
           [INFO ''Full URL for downloading file: https://cloud-api.yandex.net/v1/disk/public/resources/download?public_key=key&path=/B''],
        requested := requested w @
           [''https://cloud-api.yandex.net/v1/disk/public/resources/download?public_key=key&path=/B'']\<rparr>)"
  using download_body_raises
          [of "env_batch (Inl (RequestException ''Connection refused'')) b"
              "quote (replace_space_plus ''key'')" "''/B''" "RequestException ''Connection refused''" w]
  by (simp add: download_url_B)
     (simp add: env_batch_def)

text \<open>
  The batch of the specification when the failure of B is raised inside the \<^verbatim>\<open>try\<close>
  block (here by the request for the bytes): A and C are written and one failure is logged.
\<close>

lemma batch_content_request_fails:
  "download_files (env_batch (Inr (link ''https://downloader/B'')) (Inl (RequestException ''Connection refused'')))
      ''key'' [''/A'', ''/B'', ''/C''] world0 = (r, w) \<Longrightarrow>
   r = None
   \<and> files w = [''/srv/app/../files/A'' \<mapsto> ''bytes of A'', ''/srv/app/../files/C'' \<mapsto> ''bytes of C'']
   \<and> logged_errors w = [''Failed to download file /B: Connection refused'']"
  by (auto simp add: download_files_def batch_A batch_B_content_request_fails batch_C world0_def
        logged_errors_def)


subsection \<open>The parameter builder\<close>

text \<open>
  Claim C4, as stated, fails: the function raises in another integer-argument case. The
  formatted string converts the integer to decimal digits, and that conversion raises
  \<^verbatim>\<open>ValueError\<close> for an integer of more than 4300 digits, such as \<open>10 ^ 4300\<close>.
\<close>

theorem resolution_raises_beyond_digit_limit:
  "resolution (Some (10 ^ 4300)) None = Inl digits_limit_error"
proof -
  have "str_int (10 ^ int_max_str_digits) = Inl digits_limit_error"
    by (rule str_int_raises) simp
  then have "resolution (Some (10 ^ int_max_str_digits)) None = Inl digits_limit_error"
    by (simp only: resolution.simps sum.case)
  then show ?thesis
    unfolding int_max_str_digits_def .
qed

text \<open>
  Claim C4, amended. \<^verbatim>\<open>PreviewSizeOptions.resolution\<close> returns \<^verbatim>\<open>"100x"\<close> for a width of
  100 alone, \<^verbatim>\<open>"x200"\<close> for a height of 200 alone and \<^verbatim>\<open>"100x200"\<close> for both; with
  neither it raises \<^verbatim>\<open>ValueError\<close>. With integer arguments it raises exactly when one of
  them has more than 4300 decimal digits, that is an absolute value of \<open>10 ^ 4300\<close> or
  more, and in no other case. The function takes no world and no environment: it raises
  before any request could be made.
\<close>

theorem resolution_cases:
  "resolution (Some 100) None = Inr ''100x''
   \<and> resolution None (Some 200) = Inr ''x200''
   \<and> resolution (Some 100) (Some 200) = Inr ''100x200''
   \<and> (\<exists>msg. resolution None None = Inl (ValueError msg))
   \<and> (\<forall>width height.
         (\<exists>ex. resolution width height = Inl ex) \<longleftrightarrow>
           (width = None \<and> height = None)
           \<or> (\<exists>n. (width = Some n \<or> height = Some n) \<and> 10 ^ int_max_str_digits \<le> \<bar>n\<bar>))
   \<and> int_max_str_digits = 4300"
proof -
  have raises: "(\<exists>ex. resolution width height = Inl ex) \<longleftrightarrow>
           (width = None \<and> height = None)
           \<or> (\<exists>n. (width = Some n \<or> height = Some n) \<and> 10 ^ int_max_str_digits \<le> \<bar>n\<bar>)"
    for width height
  proof (cases width; cases height)
    fix w h assume wh: "width = Some w" "height = Some h"
    show ?thesis
      using str_int_raises_iff [of w] str_int_raises_iff [of h]
      by (auto simp add: wh split: sum.splits)
  next
    fix w assume wh: "width = Some w" "height = None"
    show ?thesis
      using str_int_raises_iff [of w] by (auto simp add: wh split: sum.splits)
  next
    fix h assume wh: "width = None" "height = Some h"
    show ?thesis
      using str_int_raises_iff [of h] by (auto simp add: wh split: sum.splits)
  next
    assume "width = None" "height = None"
    then show ?thesis by simp
  qed
  have examples: "resolution (Some 100) None = Inr ''100x''"
    "resolution None (Some 200) = Inr ''x200''"
    "resolution (Some 100) (Some 200) = Inr ''100x200''"
    "\<exists>msg. resolution None None = Inl (ValueError msg)"
    by (simp_all add: str_int_100 str_int_200)
  have "int_max_str_digits = 4300"
    by (simp add: int_max_str_digits_def)
  with raises examples show ?thesis
    by blast
qed

text \<open>
  Claim C2, as stated, fails: a \<^verbatim>\<open>ResourceRequestParams\<close> built from the public key alone
  has the default \<^verbatim>\<open>limit\<close> of \<open>10^18\<close>, which is not \<^verbatim>\<open>None\<close>, so the prepared
  dictionary has the key \<^verbatim>\<open>"limit"\<close>.
\<close>

theorem prepared_dict_default_has_limit:
  "''limit'' \<in> fst ` set (prepared_dict (ResourceRequestParams_init ''key''))"
  by (simp add: prepared_dict_def ResourceRequestParams_init_def asdict_def)

text \<open>
  Claim C2, amended. For a \<^verbatim>\<open>ResourceRequestParams\<close> built from the public key alone the
  prepared dictionary holds exactly two entries, the public key and the default limit
  \<open>10^18\<close>; it has no key for \<^verbatim>\<open>fields\<close>, \<^verbatim>\<open>offset\<close>, \<^verbatim>\<open>path\<close>, \<^verbatim>\<open>preview_crop\<close>,
  \<^verbatim>\<open>preview_size\<close> and \<^verbatim>\<open>sort\<close>.
\<close>

theorem prepared_dict_only_public_key:
  "prepared_dict (ResourceRequestParams_init k) =
     [(''public_key'', VStr k), (''limit'', VInt 1000000000000000000)]
   \<and> fst ` set (prepared_dict (ResourceRequestParams_init k)) = {''public_key'', ''limit''}"
  by (simp add: prepared_dict_def ResourceRequestParams_init_def asdict_def)

text \<open>
  Claim C6. When \<^verbatim>\<open>fields\<close> is a non-empty tuple of selectors, the value under
  \<^verbatim>\<open>"fields"\<close> in the prepared dictionary is the string of the selectors' values, each
  without its first character, joined by commas in the order of the tuple; and the first
  character of each value is the separating dot.
\<close>

theorem prepared_dict_fields_tuple:
  "fs \<noteq> [] \<Longrightarrow>
   map_of (prepared_dict (p\<lparr>fields' := Some (Tuple fs)\<rparr>)) ''fields'' =
     Some (VStr (join '','' (map (\<lambda>f. drop 1 (field_value f)) fs)))
   \<and> (\<forall>f \<in> set fs. field_value f = CHR ''.'' # drop 1 (field_value f))"
  using field_value_leading_dot by (simp add: map_of_prepared_dict_tuple)

theorem prepared_dict_fields_tuple_witness:
  "[NAME, EMBEDDED_ITEMS_TYPE] \<noteq> []
   \<and> map_of (prepared_dict ((ResourceRequestParams_init ''k'')
        \<lparr>fields' := Some (Tuple [NAME, EMBEDDED_ITEMS_TYPE])\<rparr>)) ''fields''
       = Some (VStr ''name,_embedded.items.type'')"
  using prepared_dict_fields_tuple [of "[NAME, EMBEDDED_ITEMS_TYPE]" "ResourceRequestParams_init ''k''"]
  by simp

text \<open>
  Claim C9. When \<^verbatim>\<open>fields\<close> is a single selector and not a tuple, the prepared dictionary
  holds the selector itself under \<^verbatim>\<open>"fields"\<close>; what is sent for it is its value, whose
  first character is the dot that the tuple case removes.
\<close>

theorem prepared_dict_fields_single:
  "fields' p = Some (Single f) \<Longrightarrow>
   map_of (prepared_dict p) ''fields'' = Some (VField f)
   \<and> str_param (VField f) = Inr (field_value f)
   \<and> hd (field_value f) = CHR ''.''"
  using field_value_leading_dot [of f]
  by (simp add: prepared_dict_def asdict_def) (metis list.sel(1))

theorem prepared_dict_fields_single_witness:
  "fields' ((ResourceRequestParams_init ''k'')\<lparr>fields' := Some (Single NAME)\<rparr>) = Some (Single NAME)
   \<and> map_of (prepared_dict ((ResourceRequestParams_init ''k'')\<lparr>fields' := Some (Single NAME)\<rparr>)) ''fields''
       = Some (VField NAME)
   \<and> str_param (VField NAME) = Inr ''.name''"
  using prepared_dict_fields_single
          [of "(ResourceRequestParams_init ''k'')\<lparr>fields' := Some (Single NAME)\<rparr>" NAME]
  by simp

subsection \<open>Fetching the listing\<close>

text \<open>
  Claim C5. When the request is answered and the response decodes to a dictionary: if the
  dictionary has the key \<^verbatim>\<open>"_embedded"\<close>, the returned dictionary maps \<^verbatim>\<open>"embedded"\<close> to
  the value that was under \<^verbatim>\<open>"_embedded"\<close>, has no key \<^verbatim>\<open>"_embedded"\<close> and agrees with the
  response on every other key; if it has no such key, it is returned as it is.
\<close>

theorem get_public_resource_dict_renames_embedded:
  assumes "listing_url (set_default_fields p) = Inr url"
    and "http_get e url = Inr resp"
    and "json_body resp = Inr (JDict d)"
  shows "(\<forall>v. map_of d ''_embedded'' = Some v \<longrightarrow>
            (\<exists>d'. fst (get_public_resource_dict e p w) = Inr (JDict d')
                  \<and> map_of d' ''embedded'' = Some v
                  \<and> map_of d' ''_embedded'' = None
                  \<and> (\<forall>k. k \<noteq> ''embedded'' \<and> k \<noteq> ''_embedded'' \<longrightarrow> map_of d' k = map_of d k)))
       \<and> (map_of d ''_embedded'' = None \<longrightarrow> fst (get_public_resource_dict e p w) = Inr (JDict d))"
  using get_public_resource_dict_result [OF assms, of w]
  by (auto simp: update_conv' delete_conv')

theorem get_public_resource_dict_renames_embedded_witness:
  "listing_url (set_default_fields (ResourceRequestParams_init ''k'')) =
     Inr ''https://cloud-api.yandex.net/v1/disk/public/resources/?public_key=k&fields=name%2Cpublic_url%2C_embedded.items.name%2C_embedded.items.type%2C_embedded.items.media_type%2C_embedded.items.public_url%2Cpath&limit=1000000000000000000''
   \<and> map_of [(''name'', JStr ''folder''), (''_embedded'', JDict [(''items'', JList [])])] ''_embedded''
       = Some (JDict [(''items'', JList [])])
   \<and> fst (get_public_resource_dict
            (env_ok (JDict [(''name'', JStr ''folder''), (''_embedded'', JDict [(''items'', JList [])])]) [])
            (ResourceRequestParams_init ''k'') world0)
       = Inr (JDict [(''name'', JStr ''folder''), (''embedded'', JDict [(''items'', JList [])])])
   \<and> fst (get_public_resource_dict (env_ok (JDict [(''name'', JStr ''file.txt'')]) [])
            (ResourceRequestParams_init ''k'') world0)
       = Inr (JDict [(''name'', JStr ''file.txt'')])"
proof -
  let ?url = "''https://cloud-api.yandex.net/v1/disk/public/resources/?public_key=k&fields=name%2Cpublic_url%2C_embedded.items.name%2C_embedded.items.type%2C_embedded.items.media_type%2C_embedded.items.public_url%2Cpath&limit=1000000000000000000''"
  let ?d = "[(''name'', JStr ''folder''), (''_embedded'', JDict [(''items'', JList [])])]"
  let ?f = "[(''name'', JStr ''file.txt'')]"
  have u: "listing_url (set_default_fields (ResourceRequestParams_init ''k'')) = Inr ?url"
    using listing_url_default
    by (simp add: set_default_fields_def ResourceRequestParams_init_def)
  have gd: "http_get (env_ok (JDict ?d) []) ?url = Inr \<lparr>content = [], json_body = Inr (JDict ?d)\<rparr>"
    and gf: "http_get (env_ok (JDict ?f) []) ?url = Inr \<lparr>content = [], json_body = Inr (JDict ?f)\<rparr>"
    by (simp_all add: env_ok_def)
  have j: "json_body \<lparr>content = [], json_body = Inr (JDict ?d)\<rparr> = Inr (JDict ?d)"
    "json_body \<lparr>content = [], json_body = Inr (JDict ?f)\<rparr> = Inr (JDict ?f)"
    by simp_all
  from get_public_resource_dict_renames_embedded [OF u gd j(1), of world0]
       get_public_resource_dict_renames_embedded [OF u gf j(2), of world0]
       get_public_resource_dict_result [OF u gd j(1), of world0]
       u
  show ?thesis by simp
qed

text \<open>
  Claim C10. When the response dictionary has both keys, \<^verbatim>\<open>"_embedded"\<close> and
  \<^verbatim>\<open>"embedded"\<close>, the returned dictionary maps \<^verbatim>\<open>"embedded"\<close> to the value that was under
  \<^verbatim>\<open>"_embedded"\<close>; the value that was under \<^verbatim>\<open>"embedded"\<close> is gone: the keys of a
  dictionary being distinct, no entry for \<^verbatim>\<open>"embedded"\<close> holds another value.
\<close>

theorem get_public_resource_dict_embedded_overwritten:
  assumes "listing_url (set_default_fields p) = Inr url"
    and "http_get e url = Inr resp"
    and "json_body resp = Inr (JDict d)"
    and "map_of d ''_embedded'' = Some v"
    and "map_of d ''embedded'' = Some old"
  shows "\<exists>d'. fst (get_public_resource_dict e p w) = Inr (JDict d')
              \<and> map_of d' ''embedded'' = Some v
              \<and> map_of d' ''_embedded'' = None
              \<and> (distinct (map fst d) \<longrightarrow> (\<forall>x. (''embedded'', x) \<in> set d' \<longrightarrow> x = v))"
proof -
  let ?d' = "AList.update ''embedded'' v (AList.delete ''_embedded'' d)"
  have r: "fst (get_public_resource_dict e p w) = Inr (JDict ?d')"
    using get_public_resource_dict_result [OF assms(1,2,3), of w] assms(4) by simp
  have m: "map_of ?d' ''embedded'' = Some v" "map_of ?d' ''_embedded'' = None"
    by (simp_all add: update_conv' delete_conv')
  have "distinct (map fst d) \<Longrightarrow> distinct (map fst ?d')"
    by (simp add: distinct_update distinct_delete)
  then have "distinct (map fst d) \<Longrightarrow> (''embedded'', x) \<in> set ?d' \<Longrightarrow> x = v" for x
    using m(1) by (metis map_of_is_SomeI option.inject)
  with r m show ?thesis by blast
qed

theorem get_public_resource_dict_embedded_overwritten_witness:
  "map_of [(''embedded'', JStr ''old''), (''_embedded'', JStr ''new'')] ''_embedded'' = Some (JStr ''new'')
   \<and> map_of [(''embedded'', JStr ''old''), (''_embedded'', JStr ''new'')] ''embedded'' = Some (JStr ''old'')
   \<and> distinct (map fst [(''embedded'', JStr ''old''), (''_embedded'', JStr ''new'')])
   \<and> fst (get_public_resource_dict
            (env_ok (JDict [(''embedded'', JStr ''old''), (''_embedded'', JStr ''new'')]) [])
            (ResourceRequestParams_init ''k'') world0)
       = Inr (JDict [(''embedded'', JStr ''new'')])"
proof -
  let ?url = "''https://cloud-api.yandex.net/v1/disk/public/resources/?public_key=k&fields=name%2Cpublic_url%2C_embedded.items.name%2C_embedded.items.type%2C_embedded.items.media_type%2C_embedded.items.public_url%2Cpath&limit=1000000000000000000''"
  let ?d = "[(''embedded'', JStr ''old''), (''_embedded'', JStr ''new'')]"
  have u: "listing_url (set_default_fields (ResourceRequestParams_init ''k'')) = Inr ?url"
    using listing_url_default
    by (simp add: set_default_fields_def ResourceRequestParams_init_def)
  have g: "http_get (env_ok (JDict ?d) []) ?url = Inr \<lparr>content = [], json_body = Inr (JDict ?d)\<rparr>"
    by (simp add: env_ok_def)
  have j: "json_body \<lparr>content = [], json_body = Inr (JDict ?d)\<rparr> = Inr (JDict ?d)"
    by simp
  have m: "map_of ?d ''_embedded'' = Some (JStr ''new'')" "map_of ?d ''embedded'' = Some (JStr ''old'')"
    by simp_all
  from get_public_resource_dict_embedded_overwritten [OF u g j m, of world0]
       get_public_resource_dict_result [OF u g j, of world0]
  show ?thesis by simp
qed

text \<open>
  Claim C7. When \<^verbatim>\<open>params.fields\<close> is \<^verbatim>\<open>None\<close>, the request that
  \<^verbatim>\<open>get_public_resource_dict\<close> makes is the listing request of the parameters with the
  default tuple as \<^verbatim>\<open>fields\<close>, whose query carries the seven default selectors; these are
  the name, the public URL and the path of the resource and the name, the type, the media
  type and the public URL of the embedded items. When the caller has set \<^verbatim>\<open>fields\<close>, the
  request is the listing request of the parameters as they are. It is the only request of
  the call, and it is made whenever \<^verbatim>\<open>limit\<close> and \<^verbatim>\<open>offset\<close> are within the digit limit
  of the integer conversion; beyond it \<^verbatim>\<open>urlencode\<close> raises and no request is made.
\<close>

theorem get_public_resource_dict_default_fields:
  "(fields' p = None \<longrightarrow>
      requested (snd (snd (get_public_resource_dict e p w))) =
        requested w @ (case listing_url (p\<lparr>fields' := Some (Tuple default_fields)\<rparr>) of
                         Inl ex \<Rightarrow> [] | Inr url \<Rightarrow> [url])
      \<and> map_of (prepared_dict (p\<lparr>fields' := Some (Tuple default_fields)\<rparr>)) ''fields'' =
          Some (VStr ''name,public_url,_embedded.items.name,_embedded.items.type,_embedded.items.media_type,_embedded.items.public_url,path''))
   \<and> set default_fields =
       {NAME, PUBLIC_URL, PATH, EMBEDDED_ITEMS_NAME, EMBEDDED_ITEMS_TYPE,
        EMBEDDED_ITEMS_MEDIA_TYPE, EMBEDDED_ITEMS_PUBLIC_URL}
   \<and> (fields' p \<noteq> None \<longrightarrow>
        requested (snd (snd (get_public_resource_dict e p w))) =
          requested w @ (case listing_url p of Inl ex \<Rightarrow> [] | Inr url \<Rightarrow> [url]))
   \<and> ((\<forall>n. limit p = Some n \<or> offset p = Some n \<longrightarrow> \<bar>n\<bar> < 10 ^ int_max_str_digits) \<longrightarrow>
        (\<exists>url. listing_url (set_default_fields p) = Inr url
               \<and> requested (snd (snd (get_public_resource_dict e p w))) = requested w @ [url]))"
proof -
  have sel: "set default_fields =
       {NAME, PUBLIC_URL, PATH, EMBEDDED_ITEMS_NAME, EMBEDDED_ITEMS_TYPE,
        EMBEDDED_ITEMS_MEDIA_TYPE, EMBEDDED_ITEMS_PUBLIC_URL}"
    unfolding default_fields_def by auto
  have made: "\<exists>url. listing_url (set_default_fields p) = Inr url
               \<and> requested (snd (snd (get_public_resource_dict e p w))) = requested w @ [url]"
    if bound: "\<forall>n. limit p = Some n \<or> offset p = Some n \<longrightarrow> \<bar>n\<bar> < 10 ^ int_max_str_digits"
  proof -
    have "\<exists>url. listing_url (set_default_fields p) = Inr url"
      by (rule listing_url_returns)
        (use bound in \<open>auto simp add: set_default_fields_def split: if_splits\<close>)
    then show ?thesis
      by (auto simp add: get_public_resource_dict_requested)
  qed
  show ?thesis
    using sel made default_fields_query [of p]
    by (simp add: get_public_resource_dict_requested set_default_fields_def)
qed

theorem get_public_resource_dict_default_fields_witness:
  "fields' (ResourceRequestParams_init ''k'') = None
   \<and> requested (snd (snd (get_public_resource_dict (env_ok JNull []) (ResourceRequestParams_init ''k'') world0))) =
       [''https://cloud-api.yandex.net/v1/disk/public/resources/?public_key=k&fields=name%2Cpublic_url%2C_embedded.items.name%2C_embedded.items.type%2C_embedded.items.media_type%2C_embedded.items.public_url%2Cpath&limit=1000000000000000000'']
   \<and> fields' ((ResourceRequestParams_init ''k'')\<lparr>fields' := Some (Single NAME)\<rparr>) \<noteq> None
   \<and> requested (snd (snd (get_public_resource_dict (env_ok JNull [])
         ((ResourceRequestParams_init ''k'')\<lparr>fields' := Some (Single NAME)\<rparr>) world0))) =
       [''https://cloud-api.yandex.net/v1/disk/public/resources/?public_key=k&fields=.name&limit=1000000000000000000'']"
  using get_public_resource_dict_default_fields [of "ResourceRequestParams_init ''k''" "env_ok JNull []" world0]
        get_public_resource_dict_default_fields
          [of "(ResourceRequestParams_init ''k'')\<lparr>fields' := Some (Single NAME)\<rparr>" "env_ok JNull []" world0]
  by (simp add: listing_url_default listing_url_single)
     (simp add: ResourceRequestParams_init_def world0_def)

text \<open>
  Claim C8. \<^verbatim>\<open>get_public_resource_dict\<close> assigns to its argument: when \<^verbatim>\<open>params.fields\<close>
  is \<^verbatim>\<open>None\<close> on entry, the object after the call, whether the call returned or raised,
  is the object before it with \<^verbatim>\<open>fields\<close> set to the default tuple and every other field
  as it was. A later call with the same object finds the tuple and leaves the object as it
  is; the request it makes, if \<^verbatim>\<open>urlencode\<close> does not raise, is the listing of these
  parameters.
\<close>

theorem get_public_resource_dict_mutates_params:
  assumes "fields' p = None"
  shows "fst (snd (get_public_resource_dict e p w)) = p\<lparr>fields' := Some (Tuple default_fields)\<rparr>
     \<and> fields' (fst (snd (get_public_resource_dict e p w))) = Some (Tuple default_fields)
     \<and> public_key (fst (snd (get_public_resource_dict e p w))) = public_key p
     \<and> limit (fst (snd (get_public_resource_dict e p w))) = limit p
     \<and> offset (fst (snd (get_public_resource_dict e p w))) = offset p
     \<and> path (fst (snd (get_public_resource_dict e p w))) = path p
     \<and> preview_crop (fst (snd (get_public_resource_dict e p w))) = preview_crop p
     \<and> preview_size (fst (snd (get_public_resource_dict e p w))) = preview_size p
     \<and> sort' (fst (snd (get_public_resource_dict e p w))) = sort' p
     \<and> fst (snd (get_public_resource_dict e2 (fst (snd (get_public_resource_dict e p w))) w2))
         = p\<lparr>fields' := Some (Tuple default_fields)\<rparr>
     \<and> requested (snd (snd (get_public_resource_dict e2 (fst (snd (get_public_resource_dict e p w))) w2)))
         = requested w2 @ (case listing_url (p\<lparr>fields' := Some (Tuple default_fields)\<rparr>) of
                             Inl ex \<Rightarrow> [] | Inr url \<Rightarrow> [url])"
  using assms
  by (simp add: get_public_resource_dict_params get_public_resource_dict_requested
        set_default_fields_def)

theorem get_public_resource_dict_mutates_params_witness:
  "fields' (ResourceRequestParams_init ''k'') = None
   \<and> fst (snd (get_public_resource_dict (env_ok JNull []) (ResourceRequestParams_init ''k'') world0)) =
       \<lparr>public_key = ''k'', fields' = Some (Tuple default_fields), limit = Some 1000000000000000000,
        offset = None, path = None, preview_crop = None, preview_size = None, sort' = None\<rparr>"
  using get_public_resource_dict_mutates_params
          [of "ResourceRequestParams_init ''k''" "env_ok JNull []" world0 "env_ok JNull []" world0]
  by (simp add: ResourceRequestParams_init_def)

subsection \<open>Downloading files\<close>


text \<open>
  Claim C1, at the input where it fails. In the batch A, B, C the first request for B, the
  one that asks for the download link, raises a transport error. That request stands
  before the \<^verbatim>\<open>try\<close> block: the exception leaves \<^verbatim>\<open>download_files\<close>, no failure is
  logged for B, C is never requested and never written.
\<close>

theorem download_files_first_request_error_aborts:
  "download_files (env_batch (Inl (RequestException ''Connection refused'')) (Inr (body ''bytes of B'')))
      ''key'' [''/A'', ''/B'', ''/C''] world0 =
   (Some (RequestException ''Connection refused''),
    \<lparr>files = [''/srv/app/../files/A'' \<mapsto> ''bytes of A''],
     dirs = {''/srv/app/../files''},
     log = [INFO ''Full URL for downloading file: https://cloud-api.yandex.net/v1/disk/public/resources/download?public_key=key&path=/A'',
            INFO ''INFO: File downloaded successfully: /srv/app/../files/A'',
            INFO ''Full URL for downloading file: https://cloud-api.yandex.net/v1/disk/public/resources/download?public_key=key&path=/B''],
     requested = [''https://cloud-api.yandex.net/v1/disk/public/resources/download?public_key=key&path=/A'',
                  ''https://downloader/A'',
                  ''https://cloud-api.yandex.net/v1/disk/public/resources/download?public_key=key&path=/B'']\<rparr>)"
  by (simp add: download_files_def batch_A batch_B_first_request_fails world0_def)








end
